theory Spec2Isabelle
  imports Main "HOL-Library.Word"
begin

section \<open>The FormoTensor Python bridge (python/formotensor\_bridge.cpp)\<close>

text \<open>
  The bridge is a class of static functions over a dynamically typed Python object
  (the state handle). It owns no field and no global: every result is computed from the
  handle, the index and what the external runtimes answer. The embedding has three layers:
  \<^item> the C++ exceptions the functions throw and catch, as values of a sum type;
  \<^item> the part of the Python object model the bridge observes through pybind11
    (\<open>hasattr\<close>, attribute calls, casts, \<open>len\<close>);
  \<^item> the functions of \<open>TensorNetworkHelper\<close>, one definition each, with every
    \<open>throw\<close> and every \<open>catch\<close> as a branch.
\<close>

subsection \<open>Machine integers\<close>

type_synonym size_t = "64 word"
type_synonym uint64_t = "64 word"
type_synonym byte = "8 word"

subsection \<open>C++ exceptions\<close>

text \<open>
  The exception classes that reach a handler of the bridge. All of them derive from
  \<open>std::exception\<close>, so \<open>catch (const std::exception&)\<close> and \<open>catch (...)\<close> take
  every constructor; \<open>catch (const py::error_already_set&)\<close> takes the first one only
  (\<open>py::cast_error\<close> is a \<open>std::runtime_error\<close>, not a Python error).
  \<open>std_exception\<close> stands for the exceptions of the standard library itself
  (\<open>std::length_error\<close>, \<open>std::bad_alloc\<close>). Each carries its \<open>what()\<close> text.
\<close>

datatype cpp_exn =
    error_already_set string
  | cast_error string
  | runtime_error string
  | std_exception string

fun what :: "cpp_exn \<Rightarrow> string" where
  "what (error_already_set m) = m"
| "what (cast_error m) = m"
| "what (runtime_error m) = m"
| "what (std_exception m) = m"

subsection \<open>The Python objects the bridge looks at\<close>

text \<open>
  A Python value as the casts of the bridge see it: \<open>None\<close>, an \<open>int\<close>, a capsule
  holding an address, an instance of a C++ class registered with pybind11 (at the address
  of the C++ object), a sequence, or anything else (a string, a function, a bound
  method, ...).
\<close>

datatype pyval =
    PyNone
  | PyInt int
  | PyCapsule uint64_t
  | PyInstance uint64_t
  | PySeq "pyval list"
  | PyOther

text \<open>
  What happens when an attribute is invoked: the object is not callable (Python raises
  \<open>TypeError\<close>), or it is a callable that, for each argument, raises a Python exception
  (with its text) or returns.
\<close>

datatype ('a, 'r) py_callable =
    NotCallable
  | Callable "'a \<Rightarrow> string + 'r"

text \<open>An attribute that is both read as a value and invoked (\<open>tensor.data\<close>).\<close>

record py_attr =
  attr_value :: pyval
  attr_call :: "(unit, pyval) py_callable"

text \<open>
  The tensor-like object returned by \<open>getTensor\<close>, the collection returned by
  \<open>getTensors\<close> and the state handle. A missing attribute is \<open>None\<close>.
  \<open>len_attr\<close> is the outcome of \<open>__len__\<close>: a Python exception or the length.
\<close>

record tensor_obj =
  extents :: "pyval option"
  data :: "py_attr option"

record tensors_obj =
  len_attr :: "(string + nat) option"

record state_obj =
  getTensor :: "(nat, tensor_obj) py_callable option"
  getTensors :: "(unit, tensors_obj) py_callable option"

subsection \<open>The pybind11 primitives\<close>

text \<open>\<open>py::hasattr(obj, name)\<close>: true when the attribute exists; it never throws.\<close>

definition hasattr :: "'a option \<Rightarrow> bool" where
  "hasattr a = (case a of None \<Rightarrow> False | Some _ \<Rightarrow> True)"

text \<open>\<open>obj.attr(name)\<close> read as a value: a missing attribute raises \<open>AttributeError\<close>.\<close>

definition attr :: "'a option \<Rightarrow> cpp_exn + 'a" where
  "attr a = (case a of None \<Rightarrow> Inl (error_already_set ''AttributeError'')
                     | Some v \<Rightarrow> Inr v)"

text \<open>Invoking a Python object; every Python exception arrives as \<open>error_already_set\<close>.\<close>

definition call :: "('a, 'r) py_callable \<Rightarrow> 'a \<Rightarrow> cpp_exn + 'r" where
  "call c x =
     (case c of
        NotCallable \<Rightarrow> Inl (error_already_set ''TypeError: object is not callable'')
      | Callable f \<Rightarrow> (case f x of Inl m \<Rightarrow> Inl (error_already_set m) | Inr r \<Rightarrow> Inr r))"

text \<open>\<open>obj.attr(name)(args)\<close>: read the attribute, then invoke it.\<close>

definition call_attr :: "('a, 'r) py_callable option \<Rightarrow> 'a \<Rightarrow> cpp_exn + 'r" where
  "call_attr a x = (case attr a of Inl e \<Rightarrow> Inl e | Inr c \<Rightarrow> call c x)"

definition cast_failed :: cpp_exn where
  "cast_failed = cast_error ''Unable to cast Python instance to C++ type''"

text \<open>\<open>cast<size_t>\<close> and \<open>cast<uintptr_t>\<close>: a Python int in the range of 64 bits.\<close>

definition cast_size_t :: "pyval \<Rightarrow> cpp_exn + size_t" where
  "cast_size_t v =
     (case v of
        PyInt i \<Rightarrow> if 0 \<le> i \<and> i < 2 ^ 64 then Inr (word_of_int i) else Inl cast_failed
      | _ \<Rightarrow> Inl cast_failed)"

text \<open>\<open>cast<std::vector<size_t>>\<close>: a sequence, each element cast in turn.\<close>

fun cast_elems :: "pyval list \<Rightarrow> cpp_exn + size_t list" where
  "cast_elems [] = Inr []"
| "cast_elems (v # vs) =
     (case cast_size_t v of
        Inl e \<Rightarrow> Inl e
      | Inr d \<Rightarrow> (case cast_elems vs of Inl e \<Rightarrow> Inl e | Inr ds \<Rightarrow> Inr (d # ds)))"

definition cast_size_vector :: "pyval \<Rightarrow> cpp_exn + size_t list" where
  "cast_size_vector v = (case v of PySeq vs \<Rightarrow> cast_elems vs | _ \<Rightarrow> Inl cast_failed)"

text \<open>\<open>py::isinstance<py::int_>\<close>.\<close>

definition isinstance_int :: "pyval \<Rightarrow> bool" where
  "isinstance_int v = (case v of PyInt _ \<Rightarrow> True | _ \<Rightarrow> False)"

text \<open>
  \<open>cast<void*>\<close>: \<open>None\<close> is the null pointer, a capsule gives the address it holds, an
  instance of a registered C++ class gives the address of the C++ object; everything
  else (a Python int too) fails.
\<close>

definition cast_void_ptr :: "pyval \<Rightarrow> cpp_exn + uint64_t" where
  "cast_void_ptr v =
     (case v of
        PyNone \<Rightarrow> Inr 0
      | PyCapsule p \<Rightarrow> Inr p
      | PyInstance p \<Rightarrow> Inr p
      | _ \<Rightarrow> Inl cast_failed)"

text \<open>\<open>py::len\<close>: the length, or the Python exception of \<open>__len__\<close>.\<close>

definition py_len :: "tensors_obj \<Rightarrow> cpp_exn + nat" where
  "py_len c =
     (case attr (len_attr c) of
        Inl e \<Rightarrow> Inl e
      | Inr (Inl m) \<Rightarrow> Inl (error_already_set m)
      | Inr (Inr n) \<Rightarrow> Inr n)"

subsection \<open>TensorInfo\<close>

record TensorInfo =
  shape :: "size_t list"
  total_elements :: size_t
  size_bytes :: size_t
  dtype :: string
  device_ptr :: uint64_t

text \<open>The constructor \<open>TensorInfo()\<close>.\<close>

definition TensorInfo_init :: TensorInfo where
  "TensorInfo_init =
     \<lparr>shape = [], total_elements = 0, size_bytes = 0, dtype = ''unknown'', device_ptr = 0\<rparr>"

text \<open>
  The descriptor's \<open>data_available\<close> of the specification is the field \<open>device_ptr\<close>
  of the code: "Non-zero means data is available", "0 if not available".
\<close>

definition data_available :: "TensorInfo \<Rightarrow> bool" where
  "data_available info = (device_ptr info \<noteq> 0)"

text \<open>\<open>sizeof(std::complex<double>)\<close>.\<close>

definition sizeof_complex_double :: size_t where
  "sizeof_complex_double = 16"

text \<open>
  The loop \<open>for (auto dim : extents) total *= dim;\<close> in \<open>size_t\<close> arithmetic
  (the product wraps at \<open>2^64\<close>).
\<close>

fun multiply_dims :: "size_t \<Rightarrow> size_t list \<Rightarrow> size_t" where
  "multiply_dims total_size [] = total_size"
| "multiply_dims total_size (dim # dims) = multiply_dims (total_size * dim) dims"

subsection \<open>has\_tensors\<close>

definition has_tensors :: "state_obj \<Rightarrow> bool" where
  "has_tensors state = (hasattr (getTensors state) \<or> hasattr (getTensor state))"

subsection \<open>get\_tensor\_info\<close>

text \<open>The body of the \<open>try\<close> block: lines 56 to 76.\<close>

definition get_tensor_info_try :: "state_obj \<Rightarrow> nat \<Rightarrow> cpp_exn + TensorInfo" where
  "get_tensor_info_try state idx =
     (case call_attr (getTensor state) idx of
        Inl e \<Rightarrow> Inl e
      | Inr tensor_obj \<Rightarrow>
          (case (if hasattr (extents tensor_obj)
                 then (case attr (extents tensor_obj) of
                         Inl e \<Rightarrow> Inl e
                       | Inr ev \<Rightarrow>
                           (case cast_size_vector ev of
                              Inl e \<Rightarrow> Inl e
                            | Inr exts \<Rightarrow>
                                Inr (TensorInfo_init
                                      \<lparr>shape := exts,
                                       total_elements := multiply_dims 1 exts,
                                       size_bytes := multiply_dims 1 exts * sizeof_complex_double,
                                       dtype := ''complex128''\<rparr>)))
                 else Inr TensorInfo_init) of
             Inl e \<Rightarrow> Inl e
           | Inr info \<Rightarrow>
               Inr (if hasattr (data tensor_obj) then info\<lparr>device_ptr := 1\<rparr> else info)))"

definition get_tensor_info :: "state_obj \<Rightarrow> nat \<Rightarrow> cpp_exn + TensorInfo" where
  "get_tensor_info state idx =
     (if \<not> hasattr (getTensor state)
      then Inl (runtime_error ''State object does not support getTensor()'')
      else (case get_tensor_info_try state idx of
              Inl e \<Rightarrow> Inl (runtime_error (''Failed to get tensor info: '' @ what e))
            | Inr info \<Rightarrow> Inr info))"

subsection \<open>get\_all\_tensors\_info\<close>

text \<open>
  The loop \<open>for (size_t i = 0; i < num_tensors; ++i)\<close>: a descriptor that is obtained is
  pushed at the back, anything thrown is caught by \<open>catch (...)\<close> and the index skipped.
  \<open>num_tensors\<close> comes from \<open>py::len\<close>, so \<open>++i\<close> never wraps.
\<close>

function tensors_loop :: "state_obj \<Rightarrow> nat \<Rightarrow> nat \<Rightarrow> TensorInfo list \<Rightarrow> TensorInfo list" where
  "tensors_loop state i num_tensors tensors =
     (if i < num_tensors
      then tensors_loop state (Suc i) num_tensors
             (case get_tensor_info state i of
                Inl _ \<Rightarrow> tensors
              | Inr info \<Rightarrow> tensors @ [info])
      else tensors)"
  by pat_completeness auto
termination
  by (relation "measure (\<lambda>(state, i, num_tensors, tensors). num_tensors - i)") auto

declare tensors_loop.simps [simp del]

text \<open>What the loop keeps of index \<open>i\<close>: the descriptor, or nothing when the call threw.\<close>

definition descriptor_at :: "state_obj \<Rightarrow> nat \<Rightarrow> TensorInfo option" where
  "descriptor_at state i =
     (case get_tensor_info state i of Inl _ \<Rightarrow> None | Inr info \<Rightarrow> Some info)"

text \<open>The body of the outer \<open>try\<close> block: lines 173 to 188.\<close>

definition get_all_tensors_info_try :: "state_obj \<Rightarrow> cpp_exn + TensorInfo list" where
  "get_all_tensors_info_try state =
     (case call_attr (getTensors state) () of
        Inl e \<Rightarrow> Inl e
      | Inr tensors_obj \<Rightarrow>
          (if hasattr (len_attr tensors_obj)
           then (case py_len tensors_obj of
                   Inl e \<Rightarrow> Inl e
                 | Inr num_tensors \<Rightarrow> Inr (tensors_loop state 0 num_tensors []))
           else Inr []))"

definition get_all_tensors_info :: "state_obj \<Rightarrow> cpp_exn + TensorInfo list" where
  "get_all_tensors_info state =
     (if hasattr (getTensors state)
      then (case get_all_tensors_info_try state of
              Inl e \<Rightarrow> Inl (runtime_error (''Failed to get tensors: '' @ what e))
            | Inr tensors \<Rightarrow> Inr tensors)
      else Inr [])"

subsection \<open>The runtimes outside the bridge\<close>

text \<open>
  What \<open>extract_tensor_data\<close> asks of the CUDA runtime, of the C++ allocator and of
  NumPy. None of them is part of this code, so they are parameters:
  \<^item> \<open>cudaMemcpy env dst src count\<close> is the device-to-host copy of \<open>count\<close> bytes
    from the device address \<open>src\<close> into a host buffer whose bytes are \<open>dst\<close>; it gives
    the error code and the bytes of the host buffer afterwards (after a failure they
    may be changed in part);
  \<^item> \<open>cudaGetErrorString\<close> is the text of an error code;
  \<^item> \<open>vector_alloc env n\<close> is the \<open>what()\<close> of the exception that constructing a
    \<open>std::vector\<close> of \<open>n\<close> elements throws, \<open>None\<close> when it succeeds;
  \<^item> \<open>array_alloc env shape\<close> is the Python exception that constructing the NumPy
    array raises, \<open>None\<close> when it succeeds.
\<close>

type_synonym cudaError_t = nat

definition cudaSuccess :: cudaError_t where
  "cudaSuccess = 0"

record runtime =
  cudaMemcpy :: "byte list \<Rightarrow> uint64_t \<Rightarrow> nat \<Rightarrow> cudaError_t \<times> byte list"
  cudaGetErrorString :: "cudaError_t \<Rightarrow> string"
  vector_alloc :: "nat \<Rightarrow> string option"
  array_alloc :: "int list \<Rightarrow> string option"

text \<open>The NumPy array handed back: its shape (\<open>ssize_t\<close> entries) and its bytes.\<close>

record py_array =
  array_shape :: "int list"
  array_data :: "byte list"

text \<open>
  \<open>std::vector<T>(n)\<close> throws \<open>std::length_error\<close> when \<open>n\<close> exceeds \<open>max_size()\<close>,
  which for 16-byte elements is \<open>PTRDIFF_MAX / 16\<close>, that is \<open>2^59 - 1\<close>.
\<close>

definition vector_max_size :: size_t where
  "vector_max_size = 576460752303423487"

subsection \<open>extract\_tensor\_data\<close>

text \<open>The inner \<open>try\<close> block, lines 109 to 118: invoke \<open>data\<close> and cast what it returns.\<close>

definition device_ptr_by_call :: "tensor_obj \<Rightarrow> cpp_exn + uint64_t" where
  "device_ptr_by_call tensor_obj =
     (case attr (data tensor_obj) of
        Inl e \<Rightarrow> Inl e
      | Inr d \<Rightarrow>
          (case call (attr_call d) () of
             Inl e \<Rightarrow> Inl e
           | Inr data_result \<Rightarrow>
               (if isinstance_int data_result then cast_size_t data_result
                else cast_void_ptr data_result)))"

text \<open>The handler, lines 121 and 122: read \<open>data\<close> as a property and cast it.\<close>

definition device_ptr_by_property :: "tensor_obj \<Rightarrow> cpp_exn + uint64_t" where
  "device_ptr_by_property tensor_obj =
     (case attr (data tensor_obj) of
        Inl e \<Rightarrow> Inl e
      | Inr data_obj \<Rightarrow> cast_void_ptr (attr_value data_obj))"

text \<open>
  Lines 105 to 123: \<open>catch (const py::error_already_set&)\<close> takes the Python errors of
  the inner block and nothing else.
\<close>

definition resolve_device_ptr :: "tensor_obj \<Rightarrow> cpp_exn + uint64_t" where
  "resolve_device_ptr tensor_obj =
     (case device_ptr_by_call tensor_obj of
        Inl (error_already_set m) \<Rightarrow> device_ptr_by_property tensor_obj
      | Inl e \<Rightarrow> Inl e
      | Inr dev_ptr \<Rightarrow> Inr dev_ptr)"

text \<open>Lines 125 to 153: size, host buffer, transfer, NumPy array.\<close>

definition copy_to_host :: "runtime \<Rightarrow> size_t list \<Rightarrow> uint64_t \<Rightarrow> cpp_exn + py_array" where
  "copy_to_host env exts dev_ptr =
     (let total_size = multiply_dims 1 exts in
      if vector_max_size < total_size
      then Inl (std_exception ''cannot create std::vector larger than max_size()'')
      else (case vector_alloc env (unat total_size) of
              Some m \<Rightarrow> Inl (std_exception m)
            | None \<Rightarrow>
                (let host_data = replicate (unat total_size * 16) (0 :: byte);
                     count = unat (total_size * sizeof_complex_double);
                     (err, host_data') = cudaMemcpy env host_data dev_ptr count
                 in if err \<noteq> cudaSuccess
                    then Inl (runtime_error
                               (''CUDA memcpy failed: '' @ cudaGetErrorString env err))
                    else (let shape = map sint exts in
                          case array_alloc env shape of
                            Some m \<Rightarrow> Inl (error_already_set m)
                          | None \<Rightarrow>
                              Inr \<lparr>array_shape = shape,
                                   array_data = take count host_data'\<rparr>))))"

text \<open>The body of the outer \<open>try\<close> block: lines 97 to 158.\<close>

definition extract_tensor_data_try :: "runtime \<Rightarrow> state_obj \<Rightarrow> nat \<Rightarrow> cpp_exn + py_array" where
  "extract_tensor_data_try env state idx =
     (case call_attr (getTensor state) idx of
        Inl e \<Rightarrow> Inl e
      | Inr tensor_obj \<Rightarrow>
          (if hasattr (data tensor_obj) \<and> hasattr (extents tensor_obj)
           then (case attr (extents tensor_obj) of
                   Inl e \<Rightarrow> Inl e
                 | Inr ev \<Rightarrow>
                     (case cast_size_vector ev of
                        Inl e \<Rightarrow> Inl e
                      | Inr exts \<Rightarrow>
                          (case resolve_device_ptr tensor_obj of
                             Inl e \<Rightarrow> Inl e
                           | Inr dev_ptr \<Rightarrow> copy_to_host env exts dev_ptr)))
           else Inl (runtime_error
                      ''Tensor object does not expose 'data' or 'extents' attributes'')))"

definition extract_tensor_data :: "runtime \<Rightarrow> state_obj \<Rightarrow> nat \<Rightarrow> cpp_exn + py_array" where
  "extract_tensor_data env state idx =
     (if \<not> hasattr (getTensor state)
      then Inl (runtime_error ''State object does not support getTensor()'')
      else (case extract_tensor_data_try env state idx of
              Inl e \<Rightarrow> Inl (runtime_error (''Failed to extract tensor data: '' @ what e))
            | Inr result \<Rightarrow> Inr result))"

subsection \<open>extract\_tensor\_data with the outside world threaded through\<close>

text \<open>
  The definitions above take what the Python methods and the device transfer answer as
  given. Here the same function is written over a world \<open>'w\<close> that stands for
  whatever lives outside the call: the device memory, the objects of the Python side,
  any global of the process. Every call into foreign code, \<open>getTensor(idx)\<close>,
  \<open>data()\<close> and \<open>cudaMemcpy\<close>, takes the world and gives the world back together with
  its answer, and may have changed it. \<open>cudaMemcpy\<close> gets its fourth argument, the
  direction of the copy. Probing and reading attributes and the casts are as above.
  What the allocators answer stays a parameter.
\<close>

datatype cudaMemcpyKind =
    cudaMemcpyHostToHost
  | cudaMemcpyHostToDevice
  | cudaMemcpyDeviceToHost
  | cudaMemcpyDeviceToDevice
  | cudaMemcpyDefault

datatype ('w, 'a, 'r) py_effect =
    NotCallableW
  | CallableW "'a \<Rightarrow> 'w \<Rightarrow> (string + 'r) \<times> 'w"

record 'w py_attr_w =
  attr_value_w :: pyval
  attr_call_w :: "('w, unit, pyval) py_effect"

record 'w tensor_obj_w =
  extents_w :: "pyval option"
  data_w :: "'w py_attr_w option"

record 'w state_obj_w =
  getTensor_w :: "('w, nat, 'w tensor_obj_w) py_effect option"

record 'w runtime_w =
  cudaMemcpy_w :: "byte list \<Rightarrow> uint64_t \<Rightarrow> nat \<Rightarrow> cudaMemcpyKind \<Rightarrow> 'w
                     \<Rightarrow> (cudaError_t \<times> byte list) \<times> 'w"
  cudaGetErrorString_w :: "cudaError_t \<Rightarrow> string"
  vector_alloc_w :: "nat \<Rightarrow> string option"
  array_alloc_w :: "int list \<Rightarrow> string option"

definition call_w :: "('w, 'a, 'r) py_effect \<Rightarrow> 'a \<Rightarrow> 'w \<Rightarrow> (cpp_exn + 'r) \<times> 'w" where
  "call_w c x w =
     (case c of
        NotCallableW \<Rightarrow> (Inl (error_already_set ''TypeError: object is not callable''), w)
      | CallableW f \<Rightarrow>
          (case f x w of
             (Inl m, w') \<Rightarrow> (Inl (error_already_set m), w')
           | (Inr r, w') \<Rightarrow> (Inr r, w')))"

definition call_attr_w ::
  "('w, 'a, 'r) py_effect option \<Rightarrow> 'a \<Rightarrow> 'w \<Rightarrow> (cpp_exn + 'r) \<times> 'w" where
  "call_attr_w a x w = (case attr a of Inl e \<Rightarrow> (Inl e, w) | Inr c \<Rightarrow> call_w c x w)"

text \<open>Lines 109 to 118.\<close>

definition device_ptr_by_call_w ::
  "'w tensor_obj_w \<Rightarrow> 'w \<Rightarrow> (cpp_exn + uint64_t) \<times> 'w" where
  "device_ptr_by_call_w tensor_obj w =
     (case attr (data_w tensor_obj) of
        Inl e \<Rightarrow> (Inl e, w)
      | Inr d \<Rightarrow>
          (case call_w (attr_call_w d) () w of
             (Inl e, w') \<Rightarrow> (Inl e, w')
           | (Inr data_result, w') \<Rightarrow>
               (if isinstance_int data_result then cast_size_t data_result
                else cast_void_ptr data_result, w')))"

text \<open>Lines 121 and 122: no call is made.\<close>

definition device_ptr_by_property_w :: "'w tensor_obj_w \<Rightarrow> cpp_exn + uint64_t" where
  "device_ptr_by_property_w tensor_obj =
     (case attr (data_w tensor_obj) of
        Inl e \<Rightarrow> Inl e
      | Inr data_obj \<Rightarrow> cast_void_ptr (attr_value_w data_obj))"

text \<open>Lines 105 to 123: the handler runs in the world the failed call left.\<close>

definition resolve_device_ptr_w ::
  "'w tensor_obj_w \<Rightarrow> 'w \<Rightarrow> (cpp_exn + uint64_t) \<times> 'w" where
  "resolve_device_ptr_w tensor_obj w =
     (case device_ptr_by_call_w tensor_obj w of
        (Inl (error_already_set m), w') \<Rightarrow> (device_ptr_by_property_w tensor_obj, w')
      | (Inl e, w') \<Rightarrow> (Inl e, w')
      | (Inr dev_ptr, w') \<Rightarrow> (Inr dev_ptr, w'))"

text \<open>Lines 125 to 153: the copy is asked for with \<open>cudaMemcpyDeviceToHost\<close>.\<close>

definition copy_to_host_w ::
  "'w runtime_w \<Rightarrow> size_t list \<Rightarrow> uint64_t \<Rightarrow> 'w \<Rightarrow> (cpp_exn + py_array) \<times> 'w" where
  "copy_to_host_w env exts dev_ptr w =
     (let total_size = multiply_dims 1 exts in
      if vector_max_size < total_size
      then (Inl (std_exception ''cannot create std::vector larger than max_size()''), w)
      else (case vector_alloc_w env (unat total_size) of
              Some m \<Rightarrow> (Inl (std_exception m), w)
            | None \<Rightarrow>
                (let host_data = replicate (unat total_size * 16) (0 :: byte);
                     count = unat (total_size * sizeof_complex_double);
                     ((err, host_data'), w') =
                       cudaMemcpy_w env host_data dev_ptr count cudaMemcpyDeviceToHost w
                 in if err \<noteq> cudaSuccess
                    then (Inl (runtime_error
                                (''CUDA memcpy failed: '' @ cudaGetErrorString_w env err)), w')
                    else (let shape = map sint exts in
                          case array_alloc_w env shape of
                            Some m \<Rightarrow> (Inl (error_already_set m), w')
                          | None \<Rightarrow>
                              (Inr \<lparr>array_shape = shape,
                                    array_data = take count host_data'\<rparr>, w')))))"

text \<open>Lines 97 to 158.\<close>

definition extract_tensor_data_try_w ::
  "'w runtime_w \<Rightarrow> 'w state_obj_w \<Rightarrow> nat \<Rightarrow> 'w \<Rightarrow> (cpp_exn + py_array) \<times> 'w" where
  "extract_tensor_data_try_w env state idx w =
     (case call_attr_w (getTensor_w state) idx w of
        (Inl e, w1) \<Rightarrow> (Inl e, w1)
      | (Inr tensor_obj, w1) \<Rightarrow>
          (if hasattr (data_w tensor_obj) \<and> hasattr (extents_w tensor_obj)
           then (case attr (extents_w tensor_obj) of
                   Inl e \<Rightarrow> (Inl e, w1)
                 | Inr ev \<Rightarrow>
                     (case cast_size_vector ev of
                        Inl e \<Rightarrow> (Inl e, w1)
                      | Inr exts \<Rightarrow>
                          (case resolve_device_ptr_w tensor_obj w1 of
                             (Inl e, w2) \<Rightarrow> (Inl e, w2)
                           | (Inr dev_ptr, w2) \<Rightarrow> copy_to_host_w env exts dev_ptr w2)))
           else (Inl (runtime_error
                       ''Tensor object does not expose 'data' or 'extents' attributes''),
                 w1)))"

definition extract_tensor_data_w ::
  "'w runtime_w \<Rightarrow> 'w state_obj_w \<Rightarrow> nat \<Rightarrow> 'w \<Rightarrow> (cpp_exn + py_array) \<times> 'w" where
  "extract_tensor_data_w env state idx w =
     (if \<not> hasattr (getTensor_w state)
      then (Inl (runtime_error ''State object does not support getTensor()''), w)
      else (case extract_tensor_data_try_w env state idx w of
              (Inl e, w') \<Rightarrow>
                (Inl (runtime_error (''Failed to extract tensor data: '' @ what e)), w')
            | (Inr result, w') \<Rightarrow> (Inr result, w')))"

text \<open>
  What a handle and a runtime look like from one world \<open>w\<close>: each method answers as it
  does in \<open>w\<close>, the transfer is the device-to-host copy made in \<open>w\<close>. These connect the
  definitions of this subsection with the ones before.
\<close>

definition effect_at :: "'w \<Rightarrow> ('w, 'a, 'r) py_effect \<Rightarrow> ('a, 'r) py_callable" where
  "effect_at w c =
     (case c of NotCallableW \<Rightarrow> NotCallable | CallableW f \<Rightarrow> Callable (\<lambda>x. fst (f x w)))"

definition attr_at :: "'w \<Rightarrow> 'w py_attr_w \<Rightarrow> py_attr" where
  "attr_at w d = \<lparr>attr_value = attr_value_w d, attr_call = effect_at w (attr_call_w d)\<rparr>"

definition tensor_at :: "'w \<Rightarrow> 'w tensor_obj_w \<Rightarrow> tensor_obj" where
  "tensor_at w t = \<lparr>extents = extents_w t, data = map_option (attr_at w) (data_w t)\<rparr>"

definition state_at :: "'w \<Rightarrow> 'w state_obj_w \<Rightarrow> state_obj" where
  "state_at w state =
     \<lparr>getTensor =
        map_option
          (\<lambda>c. case c of
                  NotCallableW \<Rightarrow> NotCallable
                | CallableW f \<Rightarrow> Callable (\<lambda>i. map_sum id (tensor_at w) (fst (f i w))))
          (getTensor_w state),
      getTensors = None\<rparr>"

definition runtime_at :: "'w \<Rightarrow> 'w runtime_w \<Rightarrow> runtime" where
  "runtime_at w env =
     \<lparr>cudaMemcpy = (\<lambda>dst src count.
                       fst (cudaMemcpy_w env dst src count cudaMemcpyDeviceToHost w)),
      cudaGetErrorString = cudaGetErrorString_w env,
      vector_alloc = vector_alloc_w env,
      array_alloc = array_alloc_w env\<rparr>"

section \<open>Handles used as concrete inputs\<close>

text \<open>
  A tensor of shape \<open>[2, 2]\<close> whose \<open>data\<close> is a method returning the address 4096 as
  an int, and the same tensor without the \<open>extents\<close> property.
\<close>

definition data_method :: py_attr where
  "data_method = \<lparr>attr_value = PyOther, attr_call = Callable (\<lambda>_. Inr (PyInt 4096))\<rparr>"

definition tensor_2x2 :: tensor_obj where
  "tensor_2x2 = \<lparr>extents = Some (PySeq [PyInt 2, PyInt 2]), data = Some data_method\<rparr>"

definition tensor_no_shape :: tensor_obj where
  "tensor_no_shape = \<lparr>extents = None, data = Some data_method\<rparr>"

definition tensor_bare :: tensor_obj where
  "tensor_bare = \<lparr>extents = None, data = None\<rparr>"

text \<open>A tensor whose extents multiply to \<open>2^64\<close>.\<close>

definition tensor_huge :: tensor_obj where
  "tensor_huge =
     \<lparr>extents = Some (PySeq [PyInt 4294967296, PyInt 4294967296]), data = None\<rparr>"

text \<open>A handle with neither accessor, one with \<open>getTensor\<close> only, one with
  \<open>getTensors\<close> only (a collection of length 3).\<close>

definition handle_empty :: state_obj where
  "handle_empty = \<lparr>getTensor = None, getTensors = None\<rparr>"

definition handle_single :: "tensor_obj \<Rightarrow> state_obj" where
  "handle_single t = \<lparr>getTensor = Some (Callable (\<lambda>i. Inr t)), getTensors = None\<rparr>"

definition handle_network_only :: state_obj where
  "handle_network_only =
     \<lparr>getTensor = None,
      getTensors = Some (Callable (\<lambda>_. Inr \<lparr>len_attr = Some (Inr 3)\<rparr>))\<rparr>"

text \<open>A network of five tensors whose accessor raises at index 2.\<close>

definition handle_five :: state_obj where
  "handle_five =
     \<lparr>getTensor =
        Some (Callable (\<lambda>i. if i = 2 then Inl ''RuntimeError: malformed tensor''
                             else Inr tensor_2x2)),
      getTensors = Some (Callable (\<lambda>_. Inr \<lparr>len_attr = Some (Inr 5)\<rparr>))\<rparr>"

text \<open>
  Two tensors whose \<open>data\<close> is a callable that raises when invoked: a bound method
  (which no cast turns into a pointer), and an instance of a registered C++ class at the
  address 4096 that defines \<open>__call__\<close>.
\<close>

definition tensor_raising_method :: tensor_obj where
  "tensor_raising_method =
     \<lparr>extents = Some (PySeq [PyInt 2, PyInt 2]),
      data = Some \<lparr>attr_value = PyOther,
                   attr_call = Callable (\<lambda>_. Inl ''RuntimeError: device lost'')\<rparr>\<rparr>"

definition tensor_raising_instance :: tensor_obj where
  "tensor_raising_instance =
     \<lparr>extents = Some (PySeq [PyInt 2, PyInt 2]),
      data = Some \<lparr>attr_value = PyInstance 4096,
                   attr_call = Callable (\<lambda>_. Inl ''RuntimeError: device lost'')\<rparr>\<rparr>"

text \<open>
  A runtime whose device holds the byte 7 everywhere from the address 4096 on and
  rejects every other address, and one whose transfer always fails with error 700 after
  having overwritten the first 8 bytes of the host buffer.
\<close>

definition device_4096 :: runtime where
  "device_4096 =
     \<lparr>cudaMemcpy = (\<lambda>dst src count. if src = 4096 then (cudaSuccess, replicate count 7)
                                      else (1, dst)),
      cudaGetErrorString = (\<lambda>err. if err = 0 then ''no error'' else ''invalid argument''),
      vector_alloc = (\<lambda>n. None),
      array_alloc = (\<lambda>shape. None)\<rparr>"

definition device_failing :: runtime where
  "device_failing =
     \<lparr>cudaMemcpy = (\<lambda>dst src count. (700, replicate 8 255 @ drop 8 dst)),
      cudaGetErrorString = (\<lambda>err. ''an illegal memory access was encountered''),
      vector_alloc = (\<lambda>n. None),
      array_alloc = (\<lambda>shape. None)\<rparr>"

text \<open>
  A world made of the device memory and a counter of the Python side. The device holds
  the byte 7 everywhere. \<open>video_memory\<close> copies out of it when asked device to host and
  into it when asked host to device. \<open>handle_w\<close> has one tensor of shape \<open>[2, 2]\<close>
  whose \<open>data()\<close> is the address 4096; \<open>handle_counting\<close> is the same handle, except
  that each \<open>getTensor\<close> adds one to the counter. \<open>video_memory_low\<close> is the same
  device with a host allocator that refuses more than 1000 elements and other texts.
\<close>

record world =
  device_bytes :: "uint64_t \<Rightarrow> byte"
  python_calls :: nat

definition world_7 :: world where
  "world_7 = \<lparr>device_bytes = (\<lambda>a. 7), python_calls = 0\<rparr>"

definition memcpy_world ::
  "byte list \<Rightarrow> uint64_t \<Rightarrow> nat \<Rightarrow> cudaMemcpyKind \<Rightarrow> world
     \<Rightarrow> (cudaError_t \<times> byte list) \<times> world" where
  "memcpy_world dst src count kind w =
     (case kind of
        cudaMemcpyDeviceToHost \<Rightarrow>
          ((cudaSuccess, map (\<lambda>k. device_bytes w (src + of_nat k)) [0..<count]), w)
      | cudaMemcpyHostToDevice \<Rightarrow>
          ((cudaSuccess, dst), w\<lparr>device_bytes := (\<lambda>a. 0)\<rparr>)
      | _ \<Rightarrow> ((1, dst), w))"

definition video_memory :: "world runtime_w" where
  "video_memory =
     \<lparr>cudaMemcpy_w = memcpy_world,
      cudaGetErrorString_w = (\<lambda>err. ''invalid argument''),
      vector_alloc_w = (\<lambda>n. None),
      array_alloc_w = (\<lambda>shape. None)\<rparr>"

definition video_memory_low :: "world runtime_w" where
  "video_memory_low =
     \<lparr>cudaMemcpy_w = memcpy_world,
      cudaGetErrorString_w = (\<lambda>err. ''unspecified launch failure''),
      vector_alloc_w = (\<lambda>n. if 1000 < n then Some ''std::bad_alloc'' else None),
      array_alloc_w = (\<lambda>shape. None)\<rparr>"

definition tensor_w :: "world tensor_obj_w" where
  "tensor_w =
     \<lparr>extents_w = Some (PySeq [PyInt 2, PyInt 2]),
      data_w = Some \<lparr>attr_value_w = PyOther,
                     attr_call_w = CallableW (\<lambda>_ w. (Inr (PyInt 4096), w))\<rparr>\<rparr>"

definition handle_w :: "world state_obj_w" where
  "handle_w = \<lparr>getTensor_w = Some (CallableW (\<lambda>i w. (Inr tensor_w, w)))\<rparr>"

definition handle_counting :: "world state_obj_w" where
  "handle_counting =
     \<lparr>getTensor_w =
        Some (CallableW (\<lambda>i w. (Inr tensor_w, w\<lparr>python_calls := Suc (python_calls w)\<rparr>)))\<rparr>"

section \<open>Auxiliary facts\<close>

lemma hasattr_simps [simp]: "hasattr None = False" "hasattr (Some v) = True"
  by (simp_all add: hasattr_def)

lemma attr_simps [simp]:
  "attr None = Inl (error_already_set ''AttributeError'')" "attr (Some v) = Inr v"
  by (simp_all add: attr_def)

lemma tensors_loop_eq:
  "tensors_loop state i n tensors = tensors @ List.map_filter (descriptor_at state) [i..<n]"
proof (induction state i n tensors rule: tensors_loop.induct)
  case (1 state i num_tensors tensors)
  show ?case
  proof (cases "i < num_tensors")
    case True
    let ?next = "case get_tensor_info state i of
                   Inl _ \<Rightarrow> tensors | Inr info \<Rightarrow> tensors @ [info]"
    have upt: "[i..<num_tensors] = i # [Suc i..<num_tensors]"
      using True by (simp add: upt_conv_Cons)
    have "tensors_loop state i num_tensors tensors
            = tensors_loop state (Suc i) num_tensors ?next"
      using True by (subst tensors_loop.simps) simp
    also have "\<dots> = ?next @ List.map_filter (descriptor_at state) [Suc i..<num_tensors]"
      by (rule "1.IH" [OF True])
    also have "\<dots> = tensors @ List.map_filter (descriptor_at state) [i..<num_tensors]"
      by (simp add: upt descriptor_at_def split: sum.splits)
    finally show ?thesis .
  next
    case False
    then show ?thesis
      by (subst tensors_loop.simps) simp
  qed
qed

lemma get_all_tensors_info_enumerable:
  assumes "getTensors state = Some c" and "call c () = Inr tensors_obj"
    and "len_attr tensors_obj = Some (Inr n)"
  shows "get_all_tensors_info state = Inr (List.map_filter (descriptor_at state) [0..<n])"
  using assms
  by (simp add: get_all_tensors_info_def get_all_tensors_info_try_def call_attr_def
      py_len_def tensors_loop_eq)

lemma get_all_tensors_info_members:
  assumes "get_all_tensors_info state = Inr infos" and "info \<in> set infos"
  shows "\<exists>i. get_tensor_info state i = Inr info"
proof -
  have "infos = [] \<or> (\<exists>n. infos = tensors_loop state 0 n [])"
    using assms(1)
    by (auto simp: get_all_tensors_info_def get_all_tensors_info_try_def
        split: if_splits sum.splits)
  with assms(2) obtain n where "info \<in> set (List.map_filter (descriptor_at state) [0..<n])"
    by (auto simp: tensors_loop_eq)
  then obtain i where "descriptor_at state i = Some info"
    by (auto simp: List.map_filter_def)
  then show ?thesis
    by (auto simp: descriptor_at_def split: sum.splits)
qed

lemma multiply_dims_prod: "multiply_dims t ds = t * prod_list ds"
  by (induction ds arbitrary: t) (simp_all add: mult.assoc)

lemma unat_prod_list:
  "unat (prod_list (ds :: size_t list)) = prod_list (map unat ds) mod 2 ^ 64"
proof (induction ds)
  case Nil
  show ?case by simp
next
  case (Cons d ds)
  have "unat (d * prod_list ds) = (unat d * unat (prod_list ds)) mod 2 ^ 64"
    by (simp add: unat_word_ariths)
  also have "\<dots> = (unat d * (prod_list (map unat ds) mod 2 ^ 64)) mod 2 ^ 64"
    by (simp add: Cons.IH)
  also have "\<dots> = (unat d * prod_list (map unat ds)) mod 2 ^ 64"
    by (simp add: mod_mult_right_eq)
  finally show ?case by simp
qed

text \<open>The two shapes a descriptor of \<open>get_tensor_info\<close> can have.\<close>

lemma get_tensor_info_cases:
  assumes "get_tensor_info state idx = Inr info"
  shows "(dtype info = ''unknown'' \<and> shape info = [] \<and> total_elements info = 0
            \<and> size_bytes info = 0)
         \<or> (dtype info = ''complex128''
            \<and> total_elements info = prod_list (shape info)
            \<and> size_bytes info = total_elements info * 16)"
  using assms
  by (auto simp: get_tensor_info_def get_tensor_info_try_def TensorInfo_init_def
      multiply_dims_prod sizeof_complex_double_def split: if_splits sum.splits)

section \<open>has\_tensors\<close>

text \<open>
  C7. \<open>has_tensors\<close> is true exactly when the handle exposes \<open>getTensor\<close> or
  \<open>getTensors\<close>. It is a total boolean function: there is no handle for which it
  raises. With neither accessor it is false, with one of them it is true.
\<close>

theorem has_tensors_iff:
  "has_tensors state
     = ((\<exists>c. getTensor state = Some c) \<or> (\<exists>c. getTensors state = Some c))"
  by (cases "getTensor state"; cases "getTensors state") (simp_all add: has_tensors_def)

theorem has_tensors_iff_witness:
  "has_tensors handle_empty = False
   \<and> has_tensors (handle_single tensor_2x2) = True
   \<and> has_tensors handle_network_only = True"
  using has_tensors_iff [of handle_empty] has_tensors_iff [of "handle_single tensor_2x2"]
    has_tensors_iff [of handle_network_only]
  by (simp add: handle_empty_def handle_single_def handle_network_only_def)

section \<open>get\_tensor\_info\<close>

text \<open>
  C8. When the accessor call succeeds and the tensor object has no \<open>extents\<close>
  property, \<open>get_tensor_info\<close> returns (it does not throw) a descriptor with the empty
  shape, zero elements, zero bytes and dtype "unknown", whose \<open>data_available\<close> is the
  outcome of the probe for \<open>data\<close> alone.
\<close>

theorem get_tensor_info_no_shape:
  assumes "getTensor state = Some c" and "call c idx = Inr t" and "extents t = None"
  shows "\<exists>info. get_tensor_info state idx = Inr info
           \<and> shape info = [] \<and> total_elements info = 0 \<and> size_bytes info = 0
           \<and> dtype info = ''unknown''
           \<and> data_available info = hasattr (data t)"
  using assms
  by (simp add: get_tensor_info_def get_tensor_info_try_def call_attr_def
      TensorInfo_init_def data_available_def)

theorem get_tensor_info_no_shape_witness:
  "\<exists>info. get_tensor_info (handle_single tensor_bare) 7 = Inr info
           \<and> shape info = [] \<and> total_elements info = 0 \<and> size_bytes info = 0
           \<and> dtype info = ''unknown''
           \<and> data_available info = False"
  using get_tensor_info_no_shape
          [of "handle_single tensor_bare" "Callable (\<lambda>i. Inr tensor_bare)" 7 tensor_bare]
  by (simp add: handle_single_def tensor_bare_def call_def)

text \<open>
  C2, as stated, fails: a tensor object without \<open>extents\<close> but with \<open>data\<close> gets a
  descriptor whose \<open>device_ptr\<close> is 1, that is, \<open>data_available\<close> is true.
\<close>

theorem data_available_without_shape_counterexample:
  "extents tensor_no_shape = None
   \<and> get_tensor_info (handle_single tensor_no_shape) 0
       = Inr \<lparr>shape = [], total_elements = 0, size_bytes = 0, dtype = ''unknown'',
              device_ptr = 1\<rparr>
   \<and> data_available \<lparr>shape = [], total_elements = 0, size_bytes = 0, dtype = ''unknown'',
        device_ptr = 1\<rparr>"
  by (simp add: get_tensor_info_def get_tensor_info_try_def call_attr_def call_def
      handle_single_def tensor_no_shape_def TensorInfo_init_def data_available_def)

text \<open>
  C2, amended. For a tensor object without \<open>extents\<close>, the descriptor of
  \<open>get_tensor_info\<close> has \<open>data_available\<close> true when the object exposes \<open>data\<close>
  and false when it does not: the two probes are independent.
\<close>

theorem data_available_without_shape:
  assumes "getTensor state = Some c" and "call c idx = Inr t" and "extents t = None"
  shows "\<exists>info. get_tensor_info state idx = Inr info
           \<and> data_available info = (\<exists>d. data t = Some d)"
  using assms
  by (cases "data t")
     (simp_all add: get_tensor_info_def get_tensor_info_try_def call_attr_def
        TensorInfo_init_def data_available_def)

theorem data_available_without_shape_witness:
  "\<exists>info. get_tensor_info (handle_single tensor_no_shape) 0 = Inr info
           \<and> data_available info = True"
  using data_available_without_shape
          [of "handle_single tensor_no_shape" "Callable (\<lambda>i. Inr tensor_no_shape)" 0
              tensor_no_shape]
  by (simp add: handle_single_def tensor_no_shape_def call_def)

text \<open>
  C3, as stated, fails twice. The descriptor of a tensor object without \<open>extents\<close> has
  the empty shape and zero elements, not the empty product 1. And the product is computed
  in \<open>size_t\<close>: extents \<open>[2^32, 2^32]\<close> give zero elements.
\<close>

theorem descriptor_product_counterexample:
  "get_tensor_info (handle_single tensor_bare) 0
     = Inr \<lparr>shape = [], total_elements = 0, size_bytes = 0, dtype = ''unknown'',
            device_ptr = 0\<rparr>
   \<and> unat (0 :: size_t) \<noteq> prod_list (map unat ([] :: size_t list))
   \<and> get_tensor_info (handle_single tensor_huge) 0
       = Inr \<lparr>shape = [4294967296, 4294967296], total_elements = 0, size_bytes = 0,
              dtype = ''complex128'', device_ptr = 0\<rparr>
   \<and> unat (0 :: size_t) \<noteq> prod_list (map unat [4294967296 :: size_t, 4294967296])"
  by (simp add: get_tensor_info_def get_tensor_info_try_def call_attr_def call_def
      handle_single_def tensor_bare_def tensor_huge_def TensorInfo_init_def
      cast_size_vector_def cast_size_t_def sizeof_complex_double_def)

text \<open>
  C3, amended. A descriptor returned by \<open>get_tensor_info\<close>, or contained in the result
  of \<open>get_all_tensors_info\<close>, is of one of two kinds. Either its dtype is "complex128",
  and then, provided the product of the shape entries times 16 is below \<open>2^64\<close>,
  \<open>total_elements\<close> is that product and \<open>size_bytes\<close> is \<open>total_elements\<close> times 16.
  Or its dtype is "unknown" (the tensor object had no \<open>extents\<close>), and then the shape
  is empty and \<open>total_elements\<close> and \<open>size_bytes\<close> are both 0.
\<close>

theorem descriptor_sizes:
  assumes "get_tensor_info state idx = Inr info
           \<or> (get_all_tensors_info state = Inr infos \<and> info \<in> set infos)"
  shows "(dtype info = ''complex128''
          \<and> (prod_list (map unat (shape info)) * 16 < 2 ^ 64 \<longrightarrow>
               unat (total_elements info) = prod_list (map unat (shape info))
               \<and> unat (size_bytes info) = unat (total_elements info) * 16))
         \<or> (dtype info = ''unknown'' \<and> shape info = []
            \<and> total_elements info = 0 \<and> size_bytes info = 0)"
proof -
  from assms obtain i where "get_tensor_info state i = Inr info"
    using get_all_tensors_info_members by blast
  then consider
    (unknown) "dtype info = ''unknown''" "shape info = []" "total_elements info = 0"
      "size_bytes info = 0"
    | (known) "dtype info = ''complex128''" "total_elements info = prod_list (shape info)"
      "size_bytes info = total_elements info * 16"
    using get_tensor_info_cases by blast
  then show ?thesis
  proof cases
    case unknown
    then show ?thesis by simp
  next
    case known
    let ?p = "prod_list (map unat (shape info))"
    have total: "unat (total_elements info) = ?p mod 2 ^ 64"
      by (simp add: known(2) unat_prod_list)
    have bytes: "unat (size_bytes info) = (unat (total_elements info) * 16) mod 2 ^ 64"
      by (simp add: known(3) unat_word_ariths)
    have "unat (total_elements info) = ?p \<and> unat (size_bytes info) = ?p * 16"
      if fits: "?p * 16 < 2 ^ 64"
    proof -
      from fits have "?p < 2 ^ 64" by simp
      with total have "unat (total_elements info) = ?p" by simp
      with bytes fits show ?thesis by simp
    qed
    with known(1) show ?thesis by simp
  qed
qed

theorem descriptor_sizes_witness:
  "get_tensor_info (handle_single tensor_2x2) 0
     = Inr \<lparr>shape = [2, 2], total_elements = 4, size_bytes = 64, dtype = ''complex128'',
            device_ptr = 1\<rparr>
   \<and> unat (4 :: size_t) = prod_list (map unat [2 :: size_t, 2])
   \<and> unat (64 :: size_t) = unat (4 :: size_t) * 16"
proof -
  let ?info = "\<lparr>shape = [2, 2], total_elements = 4, size_bytes = 64,
                 dtype = ''complex128'', device_ptr = 1\<rparr> :: TensorInfo"
  have run: "get_tensor_info (handle_single tensor_2x2) 0 = Inr ?info"
    by (simp add: get_tensor_info_def get_tensor_info_try_def call_attr_def call_def
        handle_single_def tensor_2x2_def TensorInfo_init_def cast_size_vector_def
        cast_size_t_def sizeof_complex_double_def)
  from descriptor_sizes [of "handle_single tensor_2x2" 0 ?info "[]"] run
  show ?thesis by simp
qed

section \<open>get\_all\_tensors\_info\<close>

text \<open>
  C1, as stated, fails: for a handle without \<open>getTensors\<close> the function returns the
  empty vector; nothing is thrown.
\<close>

theorem get_all_tensors_info_unsupported_counterexample:
  "getTensors handle_empty = None \<and> get_all_tensors_info handle_empty = Inr []"
  by (simp add: handle_empty_def get_all_tensors_info_def)

text \<open>
  C1, amended. For every handle that does not expose \<open>getTensors\<close>,
  \<open>get_all_tensors_info\<close> returns the empty sequence and raises nothing.
\<close>

theorem get_all_tensors_info_unsupported:
  assumes "getTensors state = None"
  shows "get_all_tensors_info state = Inr []"
  using assms by (simp add: get_all_tensors_info_def)

theorem get_all_tensors_info_unsupported_witness:
  "getTensors (handle_single tensor_2x2) = None
   \<and> get_all_tensors_info (handle_single tensor_2x2) = Inr []"
  using get_all_tensors_info_unsupported [of "handle_single tensor_2x2"]
  by (simp add: handle_single_def)

text \<open>
  C6. When \<open>getTensors\<close> returns a collection whose length is \<open>N\<close>,
  \<open>get_all_tensors_info\<close> returns (it does not throw, whatever the calls for the single
  indices do) the descriptors of the indices below \<open>N\<close> at which \<open>get_tensor_info\<close>
  succeeds, in the order of the indices, and nothing for the others. With \<open>N = 5\<close> and
  index 2 the only failing one, the result has 4 entries.
\<close>

theorem get_all_tensors_info_skips_failures:
  assumes "getTensors state = Some c" and "call c () = Inr tensors_obj"
    and "len_attr tensors_obj = Some (Inr N)"
  shows "\<exists>infos. get_all_tensors_info state = Inr infos
           \<and> infos = map (\<lambda>i. projr (get_tensor_info state i))
                       (filter (\<lambda>i. \<not> isl (get_tensor_info state i)) [0..<N])
           \<and> (N = 5 \<and> (\<forall>i<5. isl (get_tensor_info state i) = (i = 2))
                \<longrightarrow> length infos = 4)"
proof -
  let ?ok = "\<lambda>i. \<not> isl (get_tensor_info state i)"
  let ?infos = "map (\<lambda>i. projr (get_tensor_info state i)) (filter ?ok [0..<N])"
  have "List.map_filter (descriptor_at state) xs
          = map (\<lambda>i. projr (get_tensor_info state i)) (filter ?ok xs)" for xs
    by (induction xs) (auto simp: descriptor_at_def split: sum.splits)
  with assms have run: "get_all_tensors_info state = Inr ?infos"
    by (simp add: get_all_tensors_info_enumerable)
  have "length ?infos = 4"
    if "N = 5" and only: "\<forall>i<5. isl (get_tensor_info state i) = (i = 2)"
  proof -
    have five: "[0..<5] = [0, 1, 2, 3, 4 :: nat]"
      by (simp add: upt_rec)
    from only have "filter ?ok [0, 1, 2, 3, 4] = [0, 1, 3, 4]"
      by simp
    with \<open>N = 5\<close> five show ?thesis by simp
  qed
  with run show ?thesis by blast
qed

theorem get_all_tensors_info_skips_failures_witness:
  "\<exists>infos. get_all_tensors_info handle_five = Inr infos \<and> length infos = 4"
proof -
  have fails: "\<forall>i<5. isl (get_tensor_info handle_five i) = (i = 2)"
    by (simp add: get_tensor_info_def get_tensor_info_try_def call_attr_def call_def
        handle_five_def tensor_2x2_def cast_size_vector_def cast_size_t_def)
  from get_all_tensors_info_skips_failures
         [of handle_five
             "Callable (\<lambda>_. Inr \<lparr>len_attr = Some (Inr 5)\<rparr>)"
             "\<lparr>len_attr = Some (Inr 5)\<rparr>" 5] fails
  show ?thesis
    by (simp add: handle_five_def call_def)
qed

text \<open>
  C10. When the handle exposes \<open>getTensors\<close>, the call returns a collection that reports
  its length, and the handle does not expose \<open>getTensor\<close>, \<open>get_all_tensors_info\<close>
  returns the empty sequence: \<open>get_tensor_info\<close> throws at every index, and each throw is
  caught and the index skipped.
\<close>

theorem get_all_tensors_info_without_getTensor:
  assumes "getTensors state = Some c" and "call c () = Inr tensors_obj"
    and "len_attr tensors_obj = Some (Inr N)" and "getTensor state = None"
  shows "get_all_tensors_info state = Inr []
         \<and> (\<forall>i. get_tensor_info state i
                  = Inl (runtime_error ''State object does not support getTensor()''))"
proof -
  have throws: "get_tensor_info state i
                  = Inl (runtime_error ''State object does not support getTensor()'')" for i
    using assms(4) by (simp add: get_tensor_info_def)
  then have "descriptor_at state i = None" for i
    by (simp add: descriptor_at_def)
  then have "List.map_filter (descriptor_at state) xs = []" for xs
    by (induction xs) simp_all
  with assms(1-3) throws show ?thesis
    by (simp add: get_all_tensors_info_enumerable)
qed

theorem get_all_tensors_info_without_getTensor_witness:
  "get_all_tensors_info handle_network_only = Inr []"
  using get_all_tensors_info_without_getTensor
          [of handle_network_only
              "Callable (\<lambda>_. Inr \<lparr>len_attr = Some (Inr 3)\<rparr>)"
              "\<lparr>len_attr = Some (Inr 3)\<rparr>" 3]
  by (simp add: handle_network_only_def call_def)

section \<open>extract\_tensor\_data\<close>

lemma copy_to_host_Inr:
  assumes "copy_to_host env exts p = Inr a"
  shows "a = \<lparr>array_shape = map sint exts,
              array_data =
                take (unat (multiply_dims 1 exts * 16))
                  (snd (cudaMemcpy env (replicate (unat (multiply_dims 1 exts) * 16) 0) p
                          (unat (multiply_dims 1 exts * 16))))\<rparr>
         \<and> fst (cudaMemcpy env (replicate (unat (multiply_dims 1 exts) * 16) 0) p
                  (unat (multiply_dims 1 exts * 16))) = cudaSuccess"
  using assms
  by (auto simp: copy_to_host_def Let_def sizeof_complex_double_def
      split: if_splits option.splits prod.splits)

lemma extract_tensor_data_Inr:
  assumes "extract_tensor_data env state idx = Inr a"
  shows "\<exists>c t ev exts p. getTensor state = Some c \<and> call c idx = Inr t
           \<and> extents t = Some ev \<and> cast_size_vector ev = Inr exts
           \<and> resolve_device_ptr t = Inr p \<and> copy_to_host env exts p = Inr a"
  using assms
  by (cases "getTensor state")
     (auto simp: extract_tensor_data_def extract_tensor_data_try_def call_attr_def
        hasattr_def split: if_splits sum.splits option.splits)

text \<open>
  C4, as stated, fails. A \<open>data\<close> callable that raises an ordinary Python exception (a
  generic failure of the call, not a rejection of the invocation) also sends the
  resolution to the property read. With a bound method the caller then gets the cast
  failure of the property read instead of the exception of the call; with a callable
  C++ instance the property read succeeds and the copy is made from its address.
\<close>

theorem resolve_device_ptr_generic_failure_counterexample:
  "device_ptr_by_call tensor_raising_method
     = Inl (error_already_set ''RuntimeError: device lost'')
   \<and> resolve_device_ptr tensor_raising_method = Inl cast_failed
   \<and> extract_tensor_data device_4096 (handle_single tensor_raising_method) 0
       = Inl (runtime_error
               ''Failed to extract tensor data: Unable to cast Python instance to C++ type'')
   \<and> device_ptr_by_call tensor_raising_instance
       = Inl (error_already_set ''RuntimeError: device lost'')
   \<and> resolve_device_ptr tensor_raising_instance = Inr 4096
   \<and> extract_tensor_data device_4096 (handle_single tensor_raising_instance) 0
       = Inr \<lparr>array_shape = [2, 2], array_data = replicate 64 7\<rparr>"
  by (simp add: extract_tensor_data_def extract_tensor_data_try_def call_attr_def call_def
      resolve_device_ptr_def device_ptr_by_call_def device_ptr_by_property_def
      cast_void_ptr_def cast_failed_def cast_size_vector_def cast_size_t_def
      copy_to_host_def vector_max_size_def sizeof_complex_double_def cudaSuccess_def
      handle_single_def tensor_raising_method_def tensor_raising_instance_def
      device_4096_def)

text \<open>
  C4, amended. The resolution invokes \<open>data\<close> first. When the invocation returns, the
  result alone is cast (as an integer address if it is an int, as a pointer otherwise)
  and a failure of that cast is final. When the invocation raises any Python error,
  because the object is not callable or because the callable itself raised, the
  resolution reads \<open>data\<close> as a property and casts that to a pointer.
\<close>

theorem resolve_device_ptr_fallback:
  assumes "data t = Some d"
  shows "resolve_device_ptr t =
           (case attr_call d of
              NotCallable \<Rightarrow> cast_void_ptr (attr_value d)
            | Callable f \<Rightarrow>
                (case f () of
                   Inl m \<Rightarrow> cast_void_ptr (attr_value d)
                 | Inr data_result \<Rightarrow>
                     if isinstance_int data_result then cast_size_t data_result
                     else cast_void_ptr data_result))"
proof (cases "attr_call d")
  case NotCallable
  with assms show ?thesis
    by (simp add: resolve_device_ptr_def device_ptr_by_call_def device_ptr_by_property_def
        call_def)
next
  case (Callable f)
  show ?thesis
  proof (cases "f ()")
    case (Inl m)
    with assms Callable show ?thesis
      by (simp add: resolve_device_ptr_def device_ptr_by_call_def
          device_ptr_by_property_def call_def)
  next
    case (Inr data_result)
    have cast_int: "cast_size_t v = Inl e \<Longrightarrow> e = cast_failed" for v e
      by (auto simp: cast_size_t_def split: pyval.splits if_splits)
    have cast_ptr: "cast_void_ptr v = Inl e \<Longrightarrow> e = cast_failed" for v e
      by (auto simp: cast_void_ptr_def split: pyval.splits)
    from assms Callable Inr show ?thesis
      by (auto simp: resolve_device_ptr_def device_ptr_by_call_def call_def cast_failed_def
          dest!: cast_int cast_ptr split: sum.splits cpp_exn.splits)
  qed
qed

theorem resolve_device_ptr_fallback_witness:
  "resolve_device_ptr tensor_2x2 = Inr 4096
   \<and> resolve_device_ptr tensor_raising_instance = Inr 4096"
  using resolve_device_ptr_fallback [of tensor_2x2 data_method]
    resolve_device_ptr_fallback
      [of tensor_raising_instance
          "\<lparr>attr_value = PyInstance 4096,
            attr_call = Callable (\<lambda>_. Inl ''RuntimeError: device lost'')\<rparr>"]
  by (simp add: tensor_2x2_def data_method_def tensor_raising_instance_def
      isinstance_int_def cast_size_t_def cast_void_ptr_def)

text \<open>
  C5. When a call of \<open>extract_tensor_data\<close> reaches the transfer (the tensor object
  has extents that cast to \<open>exts\<close> and a \<open>data\<close> that resolves to the device address
  \<open>p\<close>, and the host vector is allocated) and \<open>cudaMemcpy\<close> reports an error, the call
  throws a \<open>runtime_error\<close> whose text ends with the error string of the device; no
  array is returned, whatever the transfer left in the host buffer.
\<close>

theorem extract_tensor_data_transfer_failure:
  assumes "getTensor state = Some c" and "call c idx = Inr t"
    and "extents t = Some ev" and "cast_size_vector ev = Inr exts"
    and "data t = Some d" and "resolve_device_ptr t = Inr p"
    and "multiply_dims 1 exts \<le> vector_max_size"
    and "vector_alloc env (unat (multiply_dims 1 exts)) = None"
    and "cudaMemcpy env (replicate (unat (multiply_dims 1 exts) * 16) 0) p
           (unat (multiply_dims 1 exts * 16)) = (err, host_data')"
    and "err \<noteq> cudaSuccess"
  shows "extract_tensor_data env state idx
           = Inl (runtime_error
                   (''Failed to extract tensor data: CUDA memcpy failed: ''
                    @ cudaGetErrorString env err))"
proof -
  from assms(7) have fits: "\<not> vector_max_size < multiply_dims 1 exts"
    by (simp add: not_less)
  have "copy_to_host env exts p
          = Inl (runtime_error (''CUDA memcpy failed: '' @ cudaGetErrorString env err))"
    using fits assms(8-10) by (simp add: copy_to_host_def sizeof_complex_double_def)
  with assms(1-6) show ?thesis
    by (simp add: extract_tensor_data_def extract_tensor_data_try_def call_attr_def)
qed

theorem extract_tensor_data_transfer_failure_witness:
  "extract_tensor_data device_failing (handle_single tensor_2x2) 0
     = Inl (runtime_error
             ''Failed to extract tensor data: CUDA memcpy failed: an illegal memory access was encountered'')"
proof -
  have resolve: "resolve_device_ptr tensor_2x2 = Inr 4096"
    by (simp add: resolve_device_ptr_def device_ptr_by_call_def call_def tensor_2x2_def
        data_method_def isinstance_int_def cast_size_t_def)
  have exts: "cast_size_vector (PySeq [PyInt 2, PyInt 2]) = Inr [2, 2]"
    by (simp add: cast_size_vector_def cast_size_t_def)
  have copy: "cudaMemcpy device_failing (replicate (unat (multiply_dims 1 [2, 2]) * 16) 0)
                4096 (unat (multiply_dims 1 [2, 2] * 16))
              = (700, replicate 8 255 @ replicate 56 0)"
    by (simp add: device_failing_def)
  from extract_tensor_data_transfer_failure
         [of "handle_single tensor_2x2" "Callable (\<lambda>i. Inr tensor_2x2)" 0 tensor_2x2
             "PySeq [PyInt 2, PyInt 2]" "[2, 2]" data_method 4096 device_failing 700
             "replicate 8 255 @ replicate 56 0"]
       resolve exts copy
  show ?thesis
    by (simp add: handle_single_def call_def tensor_2x2_def vector_max_size_def
        cudaSuccess_def device_failing_def)
qed

subsection \<open>The world across a call\<close>

text \<open>
  When each foreign call leaves the world as it found it, the threaded function gives
  the world back unchanged, and its result is the one of the function without a world,
  read off the handle and the runtime as they are in that world.
\<close>

lemma call_w_read_only:
  assumes "\<And>f. c = CallableW f \<Longrightarrow> snd (f x w) = w"
  shows "call_w c x w = (call (effect_at w c) x, w)"
proof (cases c)
  case NotCallableW
  then show ?thesis by (simp add: call_w_def call_def effect_at_def)
next
  case (CallableW f)
  with assms have "snd (f x w) = w" by simp
  with CallableW show ?thesis
    by (cases "f x w") (auto simp: call_w_def call_def effect_at_def split: sum.splits)
qed

lemma resolve_device_ptr_w_read_only:
  assumes "\<And>d g. data_w t = Some d \<Longrightarrow> attr_call_w d = CallableW g \<Longrightarrow> snd (g () w) = w"
  shows "resolve_device_ptr_w t w = (resolve_device_ptr (tensor_at w t), w)"
proof (cases "data_w t")
  case None
  then show ?thesis
    by (simp add: resolve_device_ptr_w_def device_ptr_by_call_w_def
        device_ptr_by_property_w_def resolve_device_ptr_def device_ptr_by_call_def
        device_ptr_by_property_def tensor_at_def)
next
  case (Some d)
  with assms have "call_w (attr_call_w d) () w = (call (effect_at w (attr_call_w d)) (), w)"
    by (intro call_w_read_only) simp
  with Some show ?thesis
    by (simp add: resolve_device_ptr_w_def device_ptr_by_call_w_def
        device_ptr_by_property_w_def resolve_device_ptr_def device_ptr_by_call_def
        device_ptr_by_property_def tensor_at_def attr_at_def
        split: sum.splits cpp_exn.splits)
qed

lemma runtime_at_simps:
  "cudaGetErrorString (runtime_at w env) = cudaGetErrorString_w env"
  "vector_alloc (runtime_at w env) = vector_alloc_w env"
  "array_alloc (runtime_at w env) = array_alloc_w env"
  "cudaMemcpy (runtime_at w env) dst src n
     = fst (cudaMemcpy_w env dst src n cudaMemcpyDeviceToHost w)"
  by (simp_all add: runtime_at_def)

lemma copy_to_host_w_read_only:
  assumes "\<And>dst src n. snd (cudaMemcpy_w env dst src n cudaMemcpyDeviceToHost w) = w"
  shows "copy_to_host_w env exts p w = (copy_to_host (runtime_at w env) exts p, w)"
proof -
  let ?host = "replicate (unat (multiply_dims 1 exts) * 16) (0 :: byte)"
  let ?count = "unat (multiply_dims 1 exts * sizeof_complex_double)"
  obtain err host_data' where
    run: "cudaMemcpy_w env ?host p ?count cudaMemcpyDeviceToHost w = ((err, host_data'), w)"
    using assms [of ?host p ?count]
    by (cases "cudaMemcpy_w env ?host p ?count cudaMemcpyDeviceToHost w") auto
  then have pure: "cudaMemcpy (runtime_at w env) ?host p ?count = (err, host_data')"
    by (simp add: runtime_at_simps)
  show ?thesis
    unfolding copy_to_host_w_def copy_to_host_def Let_def run pure
    by (simp add: runtime_at_simps(1-3) split: option.splits)
qed

lemma extract_tensor_data_w_read_only:
  assumes tensor_ro: "\<And>f. getTensor_w h = Some (CallableW f) \<Longrightarrow> snd (f idx w) = w"
    and data_ro: "\<And>f t d g. getTensor_w h = Some (CallableW f) \<Longrightarrow> fst (f idx w) = Inr t
                    \<Longrightarrow> data_w t = Some d \<Longrightarrow> attr_call_w d = CallableW g
                    \<Longrightarrow> snd (g () w) = w"
    and copy_ro: "\<And>dst src n. snd (cudaMemcpy_w env dst src n cudaMemcpyDeviceToHost w) = w"
  shows "extract_tensor_data_w env h idx w
           = (extract_tensor_data (runtime_at w env) (state_at w h) idx, w)"
proof (cases "getTensor_w h")
  case None
  then show ?thesis
    by (simp add: extract_tensor_data_w_def extract_tensor_data_def state_at_def)
next
  case (Some c)
  show ?thesis
  proof (cases c)
    case NotCallableW
    with Some show ?thesis
      by (simp add: extract_tensor_data_w_def extract_tensor_data_def state_at_def
          extract_tensor_data_try_w_def extract_tensor_data_try_def call_attr_w_def
          call_attr_def call_w_def call_def)
  next
    case (CallableW f)
    with Some tensor_ro have same: "snd (f idx w) = w" by simp
    show ?thesis
    proof (cases "fst (f idx w)")
      case (Inl m)
      with same have "f idx w = (Inl m, w)" by (cases "f idx w") simp
      with Some CallableW show ?thesis
        by (simp add: extract_tensor_data_w_def extract_tensor_data_def state_at_def
            extract_tensor_data_try_w_def extract_tensor_data_try_def call_attr_w_def
            call_attr_def call_w_def call_def)
    next
      case (Inr t)
      with same have run: "f idx w = (Inr t, w)" by (cases "f idx w") simp
      have resolve: "resolve_device_ptr_w t w = (resolve_device_ptr (tensor_at w t), w)"
      proof (rule resolve_device_ptr_w_read_only)
        fix d g
        assume "data_w t = Some d" and "attr_call_w d = CallableW g"
        with Some CallableW Inr show "snd (g () w) = w"
          using data_ro [of f t d g] by simp
      qed
      have copy: "copy_to_host_w env exts p w = (copy_to_host (runtime_at w env) exts p, w)"
        for exts p
        using copy_ro by (rule copy_to_host_w_read_only)
      from Some CallableW run resolve copy show ?thesis
        by (simp add: extract_tensor_data_w_def extract_tensor_data_def state_at_def
            extract_tensor_data_try_w_def extract_tensor_data_try_def call_attr_w_def
            call_attr_def call_w_def call_def tensor_at_def hasattr_def
            split: sum.splits option.splits)
    qed
  qed
qed

lemma extract_tensor_data_same_transfer:
  assumes "cudaMemcpy env1 = cudaMemcpy env2"
    and "extract_tensor_data env1 state idx = Inr a1"
    and "extract_tensor_data env2 state idx = Inr a2"
  shows "a1 = a2"
proof -
  from assms(2) obtain c1 t1 ev1 exts1 p1 where
    first: "getTensor state = Some c1" "call c1 idx = Inr t1" "extents t1 = Some ev1"
      "cast_size_vector ev1 = Inr exts1" "resolve_device_ptr t1 = Inr p1"
      "copy_to_host env1 exts1 p1 = Inr a1"
    using extract_tensor_data_Inr by blast
  from assms(3) obtain c2 t2 ev2 exts2 p2 where
    second: "getTensor state = Some c2" "call c2 idx = Inr t2" "extents t2 = Some ev2"
      "cast_size_vector ev2 = Inr exts2" "resolve_device_ptr t2 = Inr p2"
      "copy_to_host env2 exts2 p2 = Inr a2"
    using extract_tensor_data_Inr by blast
  from first(1) second(1) have "c2 = c1" by simp
  with first(2) second(2) have "t2 = t1" by simp
  with first(3) second(3) have "ev2 = ev1" by simp
  with first(4) second(4) have same_exts: "exts2 = exts1" by simp
  from \<open>t2 = t1\<close> first(5) second(5) have same_ptr: "p2 = p1" by simp
  from copy_to_host_Inr [OF first(6)] copy_to_host_Inr [OF second(6)]
  show ?thesis
    by (simp add: same_exts same_ptr assms(1))
qed

text \<open>
  The threaded function does hand back a changed world when a foreign call changes it:
  with a \<open>getTensor\<close> that counts its calls, the counter has moved after the call.
\<close>

lemma extract_tensor_data_w_counting:
  "extract_tensor_data_w video_memory handle_counting 0 world_7
     = (Inr \<lparr>array_shape = [2, 2], array_data = replicate 64 7\<rparr>,
        world_7\<lparr>python_calls := 1\<rparr>)"
  by (simp add: extract_tensor_data_w_def extract_tensor_data_try_w_def call_attr_w_def
      call_w_def resolve_device_ptr_w_def device_ptr_by_call_w_def isinstance_int_def
      cast_size_vector_def cast_size_t_def copy_to_host_w_def vector_max_size_def
      sizeof_complex_double_def cudaSuccess_def handle_counting_def tensor_w_def
      video_memory_def memcpy_world_def world_7_def map_replicate_const)

text \<open>
  So does a copy in the other direction: in the example runtime a host-to-device copy
  overwrites the device.
\<close>

lemma memcpy_world_host_to_device:
  "device_bytes (snd (memcpy_world dst src n cudaMemcpyHostToDevice world_7)) 4096 = 0
   \<and> device_bytes world_7 4096 = 7"
  by (simp add: memcpy_world_def world_7_def)

text \<open>
  C9. Take a call of \<open>extract_tensor_data\<close> on a handle and an index, started in the
  world \<open>w\<close>, in which the content of the device and the handle stay as they are: the
  \<open>getTensor(idx)\<close> and the \<open>data()\<close> of that handle and the device-to-host copies of
  the runtime leave \<open>w\<close> unchanged. Then the call itself changes nothing: the world
  after it is \<open>w\<close> again (the bridge writes neither to the device nor to any state of
  its own). A second call on the same handle and index, made in the world the first one
  left, gives the same result and leaves the same world. And the array does not depend
  on anything but the handle and the transfer: a second call under a runtime with the
  same \<open>cudaMemcpy\<close>, whatever its allocators and error texts, that returns an array
  returns the same shape and the same bytes.
\<close>

theorem extract_tensor_data_w_repeatable:
  assumes tensor_ro: "snd (call_attr_w (getTensor_w h) idx w) = w"
    and data_ro: "\<forall>t. fst (call_attr_w (getTensor_w h) idx w) = Inr t \<longrightarrow>
                    snd (call_attr_w (map_option attr_call_w (data_w t)) () w) = w"
    and copy_ro: "\<forall>dst src n.
                    snd (cudaMemcpy_w env dst src n cudaMemcpyDeviceToHost w) = w"
    and first: "extract_tensor_data_w env h idx w = (r, w')"
  shows "w' = w
         \<and> extract_tensor_data_w env h idx w' = (r, w)
         \<and> (\<forall>env2 a a2 w2.
               cudaMemcpy_w env2 = cudaMemcpy_w env \<longrightarrow> r = Inr a \<longrightarrow>
               extract_tensor_data_w env2 h idx w' = (Inr a2, w2) \<longrightarrow>
               a2 = a \<and> w2 = w)"
proof -
  have tensor_same: "snd (f idx w) = w" if "getTensor_w h = Some (CallableW f)" for f
    using tensor_ro that
    by (cases "f idx w") (auto simp: call_attr_w_def call_w_def split: sum.splits)
  have data_same: "snd (g () w) = w"
    if "getTensor_w h = Some (CallableW f)" and "fst (f idx w) = Inr t"
      and "data_w t = Some d" and "attr_call_w d = CallableW g" for f t d g
  proof -
    from that(1,2) have "fst (call_attr_w (getTensor_w h) idx w) = Inr t"
      by (cases "f idx w") (auto simp: call_attr_w_def call_w_def)
    with data_ro that(3,4) show ?thesis
      by (cases "g () w") (auto simp: call_attr_w_def call_w_def split: sum.splits)
  qed
  have copy_same: "snd (cudaMemcpy_w env dst src n cudaMemcpyDeviceToHost w) = w"
    for dst src n
    using copy_ro by simp
  have run: "extract_tensor_data_w env h idx w
               = (extract_tensor_data (runtime_at w env) (state_at w h) idx, w)"
    using tensor_same data_same copy_same by (rule extract_tensor_data_w_read_only)
  from first
  have "fst (extract_tensor_data_w env h idx w) = r"
    and "snd (extract_tensor_data_w env h idx w) = w'"
    by simp_all
  then have result: "extract_tensor_data (runtime_at w env) (state_at w h) idx = r"
    and unchanged: "w' = w"
    by (simp_all add: run)
  have "a2 = a \<and> w2 = w"
    if same: "cudaMemcpy_w env2 = cudaMemcpy_w env" and ret: "r = Inr a"
      and second: "extract_tensor_data_w env2 h idx w' = (Inr a2, w2)"
    for env2 a a2 w2
  proof -
    have run2: "extract_tensor_data_w env2 h idx w
                  = (extract_tensor_data (runtime_at w env2) (state_at w h) idx, w)"
      using tensor_same data_same copy_same
      by (intro extract_tensor_data_w_read_only) (simp_all add: same)
    from second unchanged
    have "fst (extract_tensor_data_w env2 h idx w) = Inr a2"
      and "snd (extract_tensor_data_w env2 h idx w) = w2"
      by simp_all
    then have ret2: "extract_tensor_data (runtime_at w env2) (state_at w h) idx = Inr a2"
      and world2: "w2 = w"
      by (simp_all add: run2)
    have transfer: "cudaMemcpy (runtime_at w env) = cudaMemcpy (runtime_at w env2)"
      by (simp add: runtime_at_def same)
    from result ret
    have ret1: "extract_tensor_data (runtime_at w env) (state_at w h) idx = Inr a"
      by simp
    from extract_tensor_data_same_transfer [OF transfer ret1 ret2] world2
    show ?thesis by simp
  qed
  with first unchanged show ?thesis by blast
qed

theorem extract_tensor_data_w_repeatable_witness:
  "extract_tensor_data_w video_memory handle_w 0 world_7
     = (Inr \<lparr>array_shape = [2, 2], array_data = replicate 64 7\<rparr>, world_7)
   \<and> extract_tensor_data_w video_memory_low handle_w 0 world_7
       = (Inr \<lparr>array_shape = [2, 2], array_data = replicate 64 7\<rparr>, world_7)"
proof -
  let ?a = "\<lparr>array_shape = [2, 2], array_data = replicate 64 7\<rparr>"
  have first: "extract_tensor_data_w video_memory handle_w 0 world_7 = (Inr ?a, world_7)"
    by (simp add: extract_tensor_data_w_def extract_tensor_data_try_w_def call_attr_w_def
        call_w_def resolve_device_ptr_w_def device_ptr_by_call_w_def isinstance_int_def
        cast_size_vector_def cast_size_t_def copy_to_host_w_def vector_max_size_def
        sizeof_complex_double_def cudaSuccess_def handle_w_def tensor_w_def
        video_memory_def memcpy_world_def world_7_def map_replicate_const)
  have "\<exists>a2 w2. extract_tensor_data_w video_memory_low handle_w 0 world_7 = (Inr a2, w2)"
    by (simp add: extract_tensor_data_w_def extract_tensor_data_try_w_def call_attr_w_def
        call_w_def resolve_device_ptr_w_def device_ptr_by_call_w_def isinstance_int_def
        cast_size_vector_def cast_size_t_def copy_to_host_w_def vector_max_size_def
        sizeof_complex_double_def cudaSuccess_def handle_w_def tensor_w_def
        video_memory_low_def memcpy_world_def)
  then obtain a2 w2 where
    second: "extract_tensor_data_w video_memory_low handle_w 0 world_7 = (Inr a2, w2)"
    by blast
  have same: "cudaMemcpy_w video_memory_low = cudaMemcpy_w video_memory"
    by (simp add: video_memory_low_def video_memory_def)
  have tensor_ro: "snd (call_attr_w (getTensor_w handle_w) 0 world_7) = world_7"
    by (simp add: call_attr_w_def call_w_def handle_w_def)
  have data_ro: "\<forall>t. fst (call_attr_w (getTensor_w handle_w) 0 world_7) = Inr t \<longrightarrow>
                   snd (call_attr_w (map_option attr_call_w (data_w t)) () world_7) = world_7"
    by (simp add: call_attr_w_def call_w_def handle_w_def tensor_w_def)
  have copy_ro: "\<forall>dst src n.
      snd (cudaMemcpy_w video_memory dst src n cudaMemcpyDeviceToHost world_7) = world_7"
    by (simp add: video_memory_def memcpy_world_def)
  from extract_tensor_data_w_repeatable [OF tensor_ro data_ro copy_ro first] same second
  have "a2 = ?a \<and> w2 = world_7"
    by blast
  with first second show ?thesis by simp
qed

end
